theory Spec2Isabelle
  imports Complex_Main "HOL-Library.AList"
begin

section \<open>Python values used by chat.py\<close>

text \<open>
  A Python \<open>str\<close> is a sequence of Unicode code points: \<open>len\<close> counts code points and
  slicing cuts between them. The texts of chat.py are Korean, so a string is modelled as
  the list of its code points, not as a list of bytes.
\<close>

type_synonym ustr = "nat list"

definition ascii :: "string \<Rightarrow> ustr" where
  "ascii s = map of_char s"

text \<open>The code points for which \<open>str.isspace\<close> holds; \<open>str.strip()\<close> removes exactly these.\<close>

definition isspace :: "nat \<Rightarrow> bool" where
  "isspace c \<longleftrightarrow>
     (9 \<le> c \<and> c \<le> 13) \<or> (28 \<le> c \<and> c \<le> 32) \<or> c = 133 \<or> c = 160 \<or> c = 5760 \<or>
     (8192 \<le> c \<and> c \<le> 8202) \<or> c = 8232 \<or> c = 8233 \<or> c = 8239 \<or> c = 8287 \<or> c = 12288"

definition strip :: "ustr \<Rightarrow> ustr" where
  "strip s = rev (dropWhile isspace (rev (dropWhile isspace s)))"

definition startswith :: "ustr \<Rightarrow> ustr \<Rightarrow> bool" where
  "startswith s p \<longleftrightarrow> take (length p) s = p"

text \<open>
  The slice \<open>s[a:-b]\<close> for literal \<open>a\<close> and \<open>b > 0\<close>: Python clips both ends, so the
  slice is empty when the string is shorter than \<open>a + b\<close>. Subtraction on \<open>nat\<close> stops
  at zero, as the clipped end does.
\<close>

definition slice :: "ustr \<Rightarrow> nat \<Rightarrow> nat \<Rightarrow> ustr" where
  "slice s a b = drop a (take (length s - b) s)"

text \<open>
  The exceptions that occur in the two functions. All of them are subclasses of
  \<open>Exception\<close>; \<open>JSONDecodeError\<close> is a subclass of \<open>ValueError\<close>. \<open>OtherException\<close>
  stands for any other subclass of \<open>Exception\<close> (an error of the API client, say),
  with its message.
\<close>

datatype exn =
    JSONDecodeError | ValueError | KeyError | TypeError | OverflowError | RecursionError
  | OtherException ustr

fun is_Exception :: "exn \<Rightarrow> bool" where
  "is_Exception _ = True"

fun is_JSONDecodeError :: "exn \<Rightarrow> bool" where
  "is_JSONDecodeError JSONDecodeError = True"
| "is_JSONDecodeError _ = False"

fun is_ValueError :: "exn \<Rightarrow> bool" where
  "is_ValueError ValueError = True"
| "is_ValueError JSONDecodeError = True"
| "is_ValueError _ = False"

fun is_KeyError :: "exn \<Rightarrow> bool" where
  "is_KeyError KeyError = True"
| "is_KeyError _ = False"

text \<open>
  The values \<open>json.loads\<close> returns. A float is kept as the text \<open>t\<close> of which it is
  \<open>float(t)\<close> (the number as written, or \<open>nan\<close>, \<open>inf\<close>, \<open>-inf\<close>): no floating-point
  arithmetic is modelled. A dict keeps its items in insertion order, keys distinct.
\<close>

datatype pyval =
    PyNone | PyBool bool | PyInt int | PyFloat ustr | PyStr ustr
  | PyList "pyval list" | PyDict "(ustr \<times> pyval) list"

section \<open>The environment: the model client and the library\<close>

record request =
  prompt :: ustr
  temperature :: real
  max_output_tokens :: nat

text \<open>
  What chat.py calls and does not define. \<open>generate_content\<close> is the method of the
  global \<open>model\<close> followed by the read of \<open>response.text\<close>: given the number of calls made
  before and the request, it raises or yields the text. \<open>json_loads\<close> is \<open>json.loads\<close>.
  \<open>builtin_int\<close> is \<open>int()\<close> on a str or a float, \<open>builtin_str\<close> is \<open>str()\<close> on a value
  that is not a str; their results depend on Unicode tables and on floating-point
  formatting, so they are parameters.
\<close>

record pyenv =
  generate_content :: "nat \<Rightarrow> request \<Rightarrow> exn + ustr"
  json_loads :: "ustr \<Rightarrow> exn + pyval"
  builtin_int :: "pyval \<Rightarrow> exn + int"
  builtin_str :: "pyval \<Rightarrow> ustr"

text \<open>
  What a run does besides returning: calls of the model, sleeps (in seconds), prints.
  A print is kept as the values the line is formatted from. \<open>print\<close> and \<open>time.sleep\<close>
  are taken to return normally.
\<close>

datatype log_line = Evaluation_error nat nat exn | Conversation_error exn

datatype event = Generate request | Sleep nat | Print log_line

fun is_Generate :: "event \<Rightarrow> bool" where
  "is_Generate (Generate _) = True"
| "is_Generate _ = False"

definition calls :: "event list \<Rightarrow> nat" where
  "calls tr = length (filter is_Generate tr)"

section \<open>Operations on values\<close>

fun contains_sub :: "ustr \<Rightarrow> ustr \<Rightarrow> bool" where
  "contains_sub [] p = (p = [])"
| "contains_sub (c # cs) p = (startswith (c # cs) p \<or> contains_sub cs p)"

text \<open>
  \<open>key in container\<close> for a str key: a dict tests its keys, a list compares its elements
  with \<open>==\<close>, a str tests for a substring, any other value raises \<open>TypeError\<close>.
\<close>

fun py_contains :: "ustr \<Rightarrow> pyval \<Rightarrow> exn + bool" where
  "py_contains k (PyDict d) = Inr (map_of d k \<noteq> None)"
| "py_contains k (PyList xs) = Inr (PyStr k \<in> set xs)"
| "py_contains k (PyStr s) = Inr (contains_sub s k)"
| "py_contains k _ = Inl TypeError"

text \<open>
  \<open>container[key]\<close> for a str key: a dict looks the key up (\<open>KeyError\<close> when absent);
  a list or a str wants an integer index and every other value has no subscript, both
  \<open>TypeError\<close>.
\<close>

fun py_getitem :: "pyval \<Rightarrow> ustr \<Rightarrow> exn + pyval" where
  "py_getitem (PyDict d) k = (case map_of d k of None \<Rightarrow> Inl KeyError | Some v \<Rightarrow> Inr v)"
| "py_getitem _ k = Inl TypeError"

text \<open>\<open>int(v)\<close>: an int is itself, a bool is 0 or 1, \<open>None\<close>, a list and a dict raise \<open>TypeError\<close>.\<close>

fun py_int :: "pyenv \<Rightarrow> pyval \<Rightarrow> exn + int" where
  "py_int E (PyInt n) = Inr n"
| "py_int E (PyBool b) = Inr (if b then 1 else 0)"
| "py_int E PyNone = Inl TypeError"
| "py_int E (PyList xs) = Inl TypeError"
| "py_int E (PyDict d) = Inl TypeError"
| "py_int E v = builtin_int E v"

text \<open>\<open>str(v)\<close>: a str is itself; \<open>str\<close> raises on none of these values.\<close>

fun py_str :: "pyenv \<Rightarrow> pyval \<Rightarrow> ustr" where
  "py_str E (PyStr s) = s"
| "py_str E v = builtin_str E v"

section \<open>The texts of chat.py\<close>

definition fence_json :: ustr where
  "fence_json = ascii ''```json''"

definition fence :: ustr where
  "fence = ascii ''```''"

definition score_key :: ustr where
  "score_key = ascii ''score''"

definition feedback_key :: ustr where
  "feedback_key = ascii ''feedback''"

definition user_role :: ustr where
  "user_role = ascii ''user''"

definition ellipsis :: ustr where
  "ellipsis = ascii ''...''"

definition too_short_message :: ustr where
  \<comment> \<open>line 78: the text is too short, write 10 characters or more and ask again\<close>
  "too_short_message =
    [44544, 51060, 32, 45320, 47924, 32, 51687, 50500, 50836, 46, 32, 49, 48, 51088, 32,
     51060, 49345, 32, 51089, 49457, 32, 54980, 32, 39, 54217, 44032, 32, 48155, 44592, 39,
     47484, 32, 45796, 49884, 32, 49884, 46020, 54644, 32, 51452, 49464, 50836, 46]"

definition parse_problem_message :: ustr where
  \<comment> \<open>line 134: a problem occurred while handling the response\<close>
  "parse_problem_message =
    [51025, 45813, 51012, 32, 52376, 47532, 54616, 45716, 32, 51473, 50640, 32, 47928, 51228,
     44032, 32, 48156, 49373, 54664, 50612, 50836, 46, 32, 45796, 49884, 32, 49884, 46020,
     54644, 51452, 49464, 50836, 46]"

definition result_problem_message :: ustr where
  \<comment> \<open>line 142: a problem occurred while handling the evaluation result\<close>
  "result_problem_message =
    [54217, 44032, 32, 44208, 44284, 47484, 32, 52376, 47532, 54616, 45716, 32, 51473, 50640,
     32, 47928, 51228, 44032, 32, 48156, 49373, 54664, 50612, 50836, 46, 32, 45796, 49884,
     32, 49884, 46020, 54644, 51452, 49464, 50836, 46]"

definition score_problem_message :: ustr where
  \<comment> \<open>line 153: a problem occurred while handling the score\<close>
  "score_problem_message =
    [51216, 49688, 47484, 32, 52376, 47532, 54616, 45716, 32, 51473, 50640, 32, 47928, 51228,
     44032, 32, 48156, 49373, 54664, 50612, 50836, 46, 32, 45796, 49884, 32, 49884, 46020,
     54644, 51452, 49464, 50836, 46]"

definition apology_message :: ustr where
  \<comment> \<open>line 164: sorry, the evaluation could not be completed\<close>
  "apology_message =
    [51396, 49569, 54644, 50836, 46, 32, 54217, 44032, 47484, 32, 50756, 47308, 54624, 32,
     49688, 32, 50630, 50632, 49845, 45768, 45796, 46, 32, 51104, 49884, 32, 54980, 32,
     45796, 49884, 32, 49884, 46020, 54644, 51452, 49464, 50836, 46]"

definition exhausted_message :: ustr where
  \<comment> \<open>line 167: tried several times without success, check the network\<close>
  "exhausted_message =
    [50668, 47084, 32, 48264, 32, 49884, 46020, 54664, 51648, 47564, 32, 54217, 44032, 47484,
     32, 50756, 47308, 54624, 32, 49688, 32, 50630, 50632, 50612, 50836, 46, 32, 45348,
     53944, 50892, 53356, 32, 49345, 53468, 47484, 32, 54869, 51064, 54616, 44256, 32, 45796,
     49884, 32, 49884, 46020, 54644, 51452, 49464, 50836, 46]"

definition chat_apology_message :: ustr where
  \<comment> \<open>line 216: sorry, a problem occurred while writing the answer (ends with U+1F60A)\<close>
  "chat_apology_message =
    [51396, 49569, 54644, 50836, 46, 32, 45813, 48320, 51012, 32, 49373, 49457, 54616, 45716,
     32, 51473, 50640, 32, 47928, 51228, 44032, 32, 48156, 49373, 54664, 50612, 50836, 46,
     32, 45796, 49884, 32, 51656, 47928, 54644, 32, 51452, 49464, 50836, 33, 32, 128522]"

definition evaluation_template_0 :: ustr where
  \<comment> \<open>lines 80-102, literal part 0 of the f-string\<close>
  "evaluation_template_0 =
    [10, 45817, 49888, 51008, 32, 39]"

definition evaluation_template_1 :: ustr where
  \<comment> \<open>lines 80-102, literal part 1 of the f-string\<close>
  "evaluation_template_1 =
    [39, 32, 54617, 49373, 51012, 32, 44032, 47476, 52824, 45716, 32, 52828, 51208, 54620,
     32, 65, 73, 32, 44544, 50416, 44592, 32, 49440, 49373, 45784, 51077, 45768, 45796, 46,
     32, 53945, 55176, 32, 39]"

definition evaluation_template_2 :: ustr where
  \<comment> \<open>lines 80-102, literal part 2 of the f-string\<close>
  "evaluation_template_2 =
    [39, 32, 44284, 47785, 44284, 32, 44288, 47144, 46108, 32, 44544, 50416, 44592, 50640,
     32, 45824, 54620, 32, 51312, 50616, 51012, 32, 54644, 51452, 45716, 32, 51204, 47928,
     44032, 51077, 45768, 45796, 46, 10, 54617, 49373, 51060, 32, 51228, 52636, 54620, 32, 39]"

definition evaluation_template_3 :: ustr where
  \<comment> \<open>lines 80-102, literal part 3 of the f-string\<close>
  "evaluation_template_3 =
    [39, 32, 44544, 51012, 32, 50500, 47000, 51032, 32, 47336, 48652, 47533, 50640, 32,
     46384, 46972, 32, 52292, 51216, 54616, 44256, 44, 32, 54617, 49373, 51032, 32, 54617,
     45380, 44284, 32, 49440, 53469, 54620, 32, 44284, 47785, 50640, 32, 47582, 45716, 32,
     47582, 52644, 54805, 32, 54588, 46300, 48177, 51012, 32, 51228, 44277, 54644, 51452,
     49464, 50836, 46, 10, 10, 60, 47336, 48652, 47533, 62, 10, 49, 46, 32, 51452, 51228,
     51032, 32, 47749, 54869, 49457, 32, 40, 51, 48, 51216, 41, 58, 32, 44544, 51032, 32,
     51473, 49900, 32, 49373, 44033, 51060, 45208, 32, 51060, 50556, 44592, 44032, 32, 47749,
     54869, 54616, 44172, 32, 46300, 47084, 45208, 45716, 44032, 63, 10, 50, 46, 32, 45236,
     50857, 51032, 32, 54413, 48512, 54632, 32, 40, 52, 48, 51216, 41, 58, 32, 44396, 52404,
     51201, 51064, 32, 50696, 49884, 44, 32, 47896, 49324, 44, 32, 45712, 45196, 51060, 32,
     51096, 32, 54364, 54788, 46104, 50612, 32, 44544, 51060, 32, 49373, 49373, 54620, 44032,
     63, 10, 51, 46, 32, 44544, 51032, 32, 44396, 51312, 32, 40, 51, 48, 51216, 41, 58, 32,
     49436, 47200, 45, 48376, 47200, 45, 44208, 47200, 32, 54841, 51008, 32, 49884, 51089,
     45, 51473, 44036, 45, 45149, 51032, 32, 55120, 47492, 51060, 32, 51088, 50672, 49828,
     47084, 50868, 44032, 63, 10, 10, 60, 52376, 47532, 32, 51648, 52840, 62, 10, 49, 46, 32,
     47336, 48652, 47533, 50640, 32, 46384, 46972, 32, 44544, 51012, 32, 52292, 51216, 54616,
     50668, 32, 52509, 51216, 51012, 32, 44228, 49328, 54633, 45768, 45796, 46, 10, 50, 46,
     32, 52509, 51216, 51060, 32, 56, 48, 51216, 32, 51060, 49345, 51060, 47732, 44, 32,
     54588, 46300, 48177, 51008, 32, 34, 51221, 47568, 32, 54988, 47469, 54644, 50836, 33, 32]"

definition evaluation_template_4 :: ustr where
  \<comment> \<open>lines 80-102, literal part 4 of the f-string\<close>
  "evaluation_template_4 =
    [32, 54617, 49373, 51032, 32, 45576, 45458, 51060, 50640, 49436, 32, 48380, 32, 46412,
     32, 51060, 32, 44544, 51008, 32, 50756, 49457, 46108, 32, 44163, 32, 44057, 50500,
     50836, 46, 34, 50752, 32, 44057, 51060, 32, 45908, 32, 51060, 49345, 32, 49688, 51221,
     54624, 32, 54596, 50836, 44032, 32, 50630, 45796, 45716, 32, 52572, 51333, 32, 52845,
     52268, 44284, 32, 44201, 47140, 51032, 32, 47700, 49884, 51648, 47484, 32, 45812, 50500,
     51452, 49464, 50836, 46, 10, 51, 46, 32, 52509, 51216, 51060, 32, 56, 48, 51216, 32,
     48120, 47564, 51060, 47732, 44, 32, 52845, 52268, 54624, 32, 48512, 48516, 44284, 32,
     54632, 44760, 32, 44060, 49440, 54624, 32, 51216, 32, 54620, 32, 44032, 51648, 47484,
     32, 44396, 52404, 51201, 51064, 32, 50696, 49884, 47484, 32, 46308, 50612, 32, 52828,
     51208, 54616, 44172, 32, 49444, 47749, 54644, 51452, 49464, 50836, 46, 32, 53945, 55176,
     32, 39]"

definition evaluation_template_5 :: ustr where
  \<comment> \<open>lines 80-102, literal part 5 of the f-string\<close>
  "evaluation_template_5 =
    [39, 32, 44284, 47785, 51032, 32, 53945, 49457, 51012, 32, 44256, 47140, 54620, 32,
     51312, 50616, 51012, 32, 54252, 54632, 54616, 47732, 32, 45908, 50865, 32, 51339, 49845,
     45768, 45796, 46, 10, 52, 46, 32, 48152, 46300, 49884, 32, 50500, 47000, 50752, 32,
     44057, 51008, 32, 74, 83, 79, 78, 32, 54805, 49885, 51004, 47196, 47564, 32, 51025,
     45813, 54644, 50556, 32, 54633, 45768, 45796, 46, 32, 45796, 47480, 32, 49444, 47749,
     51008, 32, 51208, 45824, 32, 52628, 44032, 54616, 51648, 32, 47560, 49464, 50836, 46,
     10, 10, 123, 10, 32, 32, 34, 115, 99, 111, 114, 101, 34, 58, 32, 60, 44228, 49328,
     46108, 32, 52509, 51216, 62, 44, 10, 32, 32, 34, 102, 101, 101, 100, 98, 97, 99, 107,
     34, 58, 32, 34, 60, 51216, 49688, 50640, 32, 46384, 47480, 32, 47582, 52644, 54805, 32,
     54588, 46300, 48177, 32, 45236, 50857, 62, 34, 10, 125, 10, 10, 60, 54617, 49373, 51032,
     32, 44544, 62, 10]"

definition evaluation_template_6 :: ustr where
  \<comment> \<open>lines 80-102, literal part 6 of the f-string\<close>
  "evaluation_template_6 =
    [10]"

definition conversation_template_0 :: ustr where
  \<comment> \<open>lines 189-203, literal part 0 of the f-string\<close>
  "conversation_template_0 =
    [10, 45817, 49888, 51008, 32, 39]"

definition conversation_template_1 :: ustr where
  \<comment> \<open>lines 189-203, literal part 1 of the f-string\<close>
  "conversation_template_1 =
    [39, 32, 54617, 49373, 51012, 32, 44032, 47476, 52824, 45716, 32, 52828, 51208, 54616,
     44256, 32, 45796, 51221, 54620, 32, 65, 73, 32, 44544, 50416, 44592, 32, 49440, 49373,
     45784, 51077, 45768, 45796, 46, 32, 10, 54617, 49373, 44284, 32, 44544, 50416, 44592,
     50640, 32, 45824, 54620, 32, 51088, 50976, 47196, 50868, 32, 45824, 54868, 47484, 32,
     45208, 45600, 51452, 49464, 50836, 46, 10, 39]"

definition conversation_template_2 :: ustr where
  \<comment> \<open>lines 189-203, literal part 2 of the f-string\<close>
  "conversation_template_2 =
    [39, 32, 44284, 47785, 44284, 32, 39]"

definition conversation_template_3 :: ustr where
  \<comment> \<open>lines 189-203, literal part 3 of the f-string\<close>
  "conversation_template_3 =
    [39, 32, 44544, 50416, 44592, 50640, 32, 45824, 54620, 32, 45824, 54868, 51032, 32,
     47589, 46973, 51012, 32, 50976, 51648, 54644, 51452, 49464, 50836, 46, 10, 10, 54617,
     49373, 51032, 32, 51656, 47928, 50640, 32, 45813, 54616, 44256, 44, 32, 44544, 50416,
     44592, 32, 49892, 47141, 51012, 32, 54693, 49345, 49884, 53412, 45716, 32, 45936, 32,
     46020, 50880, 51060, 32, 46104, 45716, 32, 44201, 47140, 50752, 32, 51312, 50616, 51012,
     32, 54644, 51452, 49464, 50836, 46, 10, 45813, 48320, 51008, 32, 50, 45, 51, 47928,
     51109, 51032, 32, 51687, 44256, 32, 52828, 44540, 54620, 32, 45824, 54868, 52404, 47196,
     32, 54644, 51452, 49464, 50836, 46, 10, 10, 60, 52572, 44540, 32, 45824, 54868, 32,
     45236, 50857, 62, 10]"

definition conversation_template_4 :: ustr where
  \<comment> \<open>lines 189-203, literal part 4 of the f-string\<close>
  "conversation_template_4 =
    [10, 10, 54617, 49373, 51032, 32, 49352, 47196, 50868, 32, 51656, 47928, 58, 32]"

definition conversation_template_5 :: ustr where
  \<comment> \<open>lines 189-203, literal part 5 of the f-string\<close>
  "conversation_template_5 =
    [10, 10, 49440, 49373, 45784, 51032, 32, 45813, 48320, 58, 10]"

definition student_label :: ustr where
  \<comment> \<open>line 177: label of a turn whose role is user\<close>
  "student_label =
    [54617, 49373]"

definition teacher_label :: ustr where
  \<comment> \<open>line 177: label of every other turn\<close>
  "teacher_label =
    [49440, 49373, 45784]"

definition score_open :: ustr where
  \<comment> \<open>line 185: colon, space, opening bracket and the word for score\<close>
  "score_open =
    [58, 32, 40, 51216, 49688, 58, 32]"

definition score_close :: ustr where
  \<comment> \<open>line 185: the word for points, closing bracket, space\<close>
  "score_close =
    [51216, 41, 32]"

section \<open>evaluate_writing\<close>

definition max_retries :: nat where
  "max_retries = 3"

definition evaluation_prompt :: "ustr \<Rightarrow> ustr \<Rightarrow> ustr \<Rightarrow> ustr \<Rightarrow> ustr" where
  "evaluation_prompt user_input grade subject writing_type =
     evaluation_template_0 @ grade @ evaluation_template_1 @ subject @
     evaluation_template_2 @ writing_type @ evaluation_template_3 @ grade @
     evaluation_template_4 @ subject @ evaluation_template_5 @ user_input @
     evaluation_template_6"

definition evaluation_request :: "ustr \<Rightarrow> request" where
  "evaluation_request p = \<lparr>prompt = p, temperature = 0.3, max_output_tokens = 800\<rparr>"

text \<open>How one pass through the body of the \<open>for\<close> loop ends when nothing is raised.\<close>

datatype attempt_result = Return "int \<times> ustr" | Continue

text \<open>Lines 120 to 123: a leading fence is cut off together with the last three characters.\<close>

definition strip_code_block :: "ustr \<Rightarrow> ustr" where
  "strip_code_block response_text =
     (if startswith response_text fence_json then strip (slice response_text 7 3)
      else if startswith response_text fence then strip (slice response_text 3 3)
      else response_text)"

text \<open>
  Lines 130 to 134, 138 to 142 and 149 to 153 are the same \<open>if\<close> with three messages:
  sleep one second and go on with the next attempt, or return 50 on the last one.
\<close>

definition retry_or_give_up ::
  "nat \<Rightarrow> ustr \<Rightarrow> event list \<Rightarrow> (exn + attempt_result) \<times> event list" where
  "retry_or_give_up attempt message tr =
     (if attempt < max_retries - 1 then (Inr Continue, tr @ [Sleep 1])
      else (Inr (Return (50, message)), tr))"

text \<open>Line 137: \<open>'score' not in result or 'feedback' not in result\<close>, left to right.\<close>

definition field_missing :: "pyval \<Rightarrow> exn + bool" where
  "field_missing result =
     (case py_contains score_key result of
        Inl e \<Rightarrow> Inl e
      | Inr has_score \<Rightarrow>
          if \<not> has_score then Inr True
          else (case py_contains feedback_key result of
                  Inl e \<Rightarrow> Inl e
                | Inr has_feedback \<Rightarrow> Inr (\<not> has_feedback)))"

text \<open>Lines 146 and 147, in this order.\<close>

definition convert_fields :: "pyenv \<Rightarrow> pyval \<Rightarrow> exn + int \<times> ustr" where
  "convert_fields E result =
     (case py_getitem result score_key of
        Inl e \<Rightarrow> Inl e
      | Inr sv \<Rightarrow>
         (case py_int E sv of
            Inl e \<Rightarrow> Inl e
          | Inr score \<Rightarrow>
             (case py_getitem result feedback_key of
                Inl e \<Rightarrow> Inl e
              | Inr fv \<Rightarrow> Inr (score, py_str E fv))))"

text \<open>Lines 156 and 157.\<close>

definition correct_range :: "int \<Rightarrow> int" where
  "correct_range score = (if \<not> (0 \<le> score \<and> score \<le> 100) then max 0 (min 100 score) else score)"

text \<open>
  Lines 117 to 159: what the body of the outer \<open>try\<close> does with the text of a response.
  An \<open>Inl\<close> is an exception on its way to the handler of line 161; the second component
  is the trace of events so far.
\<close>

definition handle_response ::
  "pyenv \<Rightarrow> nat \<Rightarrow> ustr \<Rightarrow> event list \<Rightarrow> (exn + attempt_result) \<times> event list" where
  "handle_response E attempt text tr =
    (let response_text = strip_code_block (strip text) in
     case json_loads E response_text of
       Inl e \<Rightarrow>
         if is_JSONDecodeError e then retry_or_give_up attempt parse_problem_message tr
         else (Inl e, tr)
     | Inr result \<Rightarrow>
        (case field_missing result of
           Inl e \<Rightarrow> (Inl e, tr)
         | Inr missing \<Rightarrow>
            if missing then retry_or_give_up attempt result_problem_message tr
            else
             (case convert_fields E result of
                Inl e \<Rightarrow>
                  if is_ValueError e \<or> is_KeyError e
                  then retry_or_give_up attempt score_problem_message tr
                  else (Inl e, tr)
              | Inr (score, feedback) \<Rightarrow> (Inr (Return (correct_range score, feedback)), tr))))"

text \<open>Lines 107 to 159, the body of the outer \<open>try\<close>: one call of the model, then the above.\<close>

definition try_body ::
  "pyenv \<Rightarrow> ustr \<Rightarrow> nat \<Rightarrow> event list \<Rightarrow> (exn + attempt_result) \<times> event list" where
  "try_body E p attempt tr =
    (case generate_content E (calls tr) (evaluation_request p) of
       Inl e \<Rightarrow> (Inl e, tr @ [Generate (evaluation_request p)])
     | Inr text \<Rightarrow> handle_response E attempt text (tr @ [Generate (evaluation_request p)]))"

text \<open>
  The \<open>for\<close> loop of line 105 over the remaining values of \<open>attempt\<close>, with the handler
  of lines 161 to 165. The result \<open>None\<close> means that the loop ran out of values without
  returning.
\<close>

fun attempt_loop ::
  "pyenv \<Rightarrow> ustr \<Rightarrow> nat list \<Rightarrow> event list \<Rightarrow> (exn + (int \<times> ustr) option) \<times> event list" where
  "attempt_loop E p [] tr = (Inr None, tr)"
| "attempt_loop E p (attempt # rest) tr =
    (case try_body E p attempt tr of
       (Inr (Return r), tr') \<Rightarrow> (Inr (Some r), tr')
     | (Inr Continue, tr') \<Rightarrow> attempt_loop E p rest tr'
     | (Inl e, tr') \<Rightarrow>
         if is_Exception e then
           (let tr'' = tr' @ [Print (Evaluation_error (attempt + 1) max_retries e)] in
            if attempt = max_retries - 1 then (Inr (Some (30, apology_message)), tr'')
            else attempt_loop E p rest (tr'' @ [Sleep 2]))
         else (Inl e, tr'))"

definition evaluate_writing ::
  "pyenv \<Rightarrow> ustr \<Rightarrow> ustr \<Rightarrow> ustr \<Rightarrow> ustr \<Rightarrow> (exn + int \<times> ustr) \<times> event list" where
  "evaluate_writing E user_input grade subject writing_type =
    (if user_input = [] \<or> length (strip user_input) < 10 then (Inr (0, too_short_message), [])
     else
       (case attempt_loop E (evaluation_prompt user_input grade subject writing_type)
               [0..<max_retries] [] of
          (Inl e, tr) \<Rightarrow> (Inl e, tr)
        | (Inr (Some r), tr) \<Rightarrow> (Inr r, tr)
        | (Inr None, tr) \<Rightarrow> (Inr (30, exhausted_message), tr)))"

section \<open>have_conversation\<close>

text \<open>
  An entry of \<open>chat_history\<close>: every entry the application appends has the keys
  \<open>role\<close> and \<open>content\<close>; the key \<open>score\<close> is there for an evaluation only.
\<close>

record turn =
  role :: ustr
  content :: ustr
  score :: "int option"

text \<open>The decimal digits of a number, as an f-string writes an int.\<close>

fun digits :: "nat \<Rightarrow> ustr" where
  "digits n = (if n < 10 then [48 + n] else digits (n div 10) @ [48 + n mod 10])"

definition str_int :: "int \<Rightarrow> ustr" where
  "str_int i = (if i < 0 then 45 # digits (nat (- i)) else digits (nat i))"

definition recent_messages :: "turn list \<Rightarrow> turn list" where
  "recent_messages chat_history =
     (if length chat_history > 8 then drop (length chat_history - 8) chat_history
      else chat_history)"

text \<open>Lines 177 to 187: the text one turn adds to \<open>history_str\<close>.\<close>

definition render_turn :: "turn \<Rightarrow> ustr" where
  "render_turn msg =
    (let role_label = (if role msg = user_role then student_label else teacher_label);
         content = content msg;
         content = (if length content > 100 then take 97 content @ ellipsis else content)
     in case score msg of
          Some s \<Rightarrow> role_label @ score_open @ str_int s @ score_close @ content @ [10]
        | None \<Rightarrow> role_label @ ascii '': '' @ content @ [10])"

definition history_str :: "turn list \<Rightarrow> ustr" where
  "history_str chat_history = foldl (\<lambda>acc msg. acc @ render_turn msg) [] (recent_messages chat_history)"

definition conversation_prompt :: "ustr \<Rightarrow> ustr \<Rightarrow> ustr \<Rightarrow> ustr \<Rightarrow> turn list \<Rightarrow> ustr" where
  "conversation_prompt user_input grade subject writing_type chat_history =
     conversation_template_0 @ grade @ conversation_template_1 @ subject @
     conversation_template_2 @ writing_type @ conversation_template_3 @
     history_str chat_history @ conversation_template_4 @ user_input @
     conversation_template_5"

definition conversation_request :: "ustr \<Rightarrow> request" where
  "conversation_request p = \<lparr>prompt = p, temperature = 0.7, max_output_tokens = 500\<rparr>"

definition have_conversation ::
  "pyenv \<Rightarrow> ustr \<Rightarrow> ustr \<Rightarrow> ustr \<Rightarrow> ustr \<Rightarrow> turn list \<Rightarrow> (exn + ustr) \<times> event list" where
  "have_conversation E user_input grade subject writing_type chat_history =
    (let req = conversation_request
                 (conversation_prompt user_input grade subject writing_type chat_history);
         tr = [Generate req]
     in case generate_content E 0 req of
          Inr text \<Rightarrow> (Inr (strip text), tr)
        | Inl e \<Rightarrow>
            if is_Exception e then (Inr chat_apology_message, tr @ [Print (Conversation_error e)])
            else (Inl e, tr))"


section \<open>A JSON decoder and an environment for the examples\<close>

text \<open>
  \<open>json_loads\<close> is a parameter of the model. Where an example needs the value of a
  concrete text, it is decoded as the module \<open>json\<close> of the Python library does
  (\<open>decoder.py\<close> and \<open>scanner.py\<close>), on the rest of the text instead of an index into it.
  Every syntax error is a \<open>JSONDecodeError\<close>.
\<close>

definition json_ws :: "nat \<Rightarrow> bool" where
  "json_ws c \<longleftrightarrow> c = 32 \<or> c = 9 \<or> c = 10 \<or> c = 13"

definition skip_ws :: "ustr \<Rightarrow> ustr" where
  "skip_ws s = dropWhile json_ws s"

definition is_digit :: "nat \<Rightarrow> bool" where
  "is_digit c \<longleftrightarrow> 48 \<le> c \<and> c \<le> 57"

definition nat_of_digits :: "ustr \<Rightarrow> nat" where
  "nat_of_digits ds = foldl (\<lambda>n c. 10 * n + (c - 48)) 0 ds"

text \<open>
  \<open>NUMBER_RE\<close>: an optional minus sign, then \<open>0\<close> or a digit from 1 to 9 with more
  digits; a fraction and an exponent only when they are complete. Without fraction and
  exponent the number is an int, else the float of the matched text.
\<close>

definition match_fraction :: "ustr \<Rightarrow> ustr \<times> ustr" where
  "match_fraction s =
     (case s of
        c # d # r \<Rightarrow>
          if c = 46 \<and> is_digit d
          then (c # d # takeWhile is_digit r, dropWhile is_digit r) else ([], s)
      | _ \<Rightarrow> ([], s))"

definition match_exponent :: "ustr \<Rightarrow> ustr \<times> ustr" where
  "match_exponent s =
     (case s of
        [] \<Rightarrow> ([], s)
      | e # r \<Rightarrow>
          if e = 101 \<or> e = 69 then
            (let sign = (case r of c # _ \<Rightarrow> if c = 43 \<or> c = 45 then [c] else [] | [] \<Rightarrow> []);
                 r' = drop (length sign) r
             in if r' \<noteq> [] \<and> is_digit (hd r')
                then (e # sign @ takeWhile is_digit r', dropWhile is_digit r')
                else ([], s))
          else ([], s))"

definition match_number :: "ustr \<Rightarrow> (pyval \<times> ustr) option" where
  "match_number s =
     (let minus = (case s of c # _ \<Rightarrow> c = 45 | [] \<Rightarrow> False);
          s1 = (if minus then tl s else s)
      in case s1 of
           [] \<Rightarrow> None
         | c # r \<Rightarrow>
             if \<not> is_digit c then None
             else
               (let integer = (if c = 48 then [c] else c # takeWhile is_digit r);
                    r1 = (if c = 48 then r else dropWhile is_digit r);
                    (frac, r2) = match_fraction r1;
                    (exp, r3) = match_exponent r2
                in if frac = [] \<and> exp = []
                   then Some (PyInt ((if minus then - 1 else 1) * int (nat_of_digits integer)), r3)
                   else Some (PyFloat ((if minus then [45] else []) @ integer @ frac @ exp), r3)))"

text \<open>The escapes of \<open>BACKSLASH\<close>, and the four hexadecimal digits after \<open>\u\<close>.\<close>

definition backslash :: "nat \<Rightarrow> nat option" where
  "backslash c =
     (if c = 34 \<or> c = 92 \<or> c = 47 then Some c
      else if c = 98 then Some 8 else if c = 102 then Some 12
      else if c = 110 then Some 10 else if c = 114 then Some 13
      else if c = 116 then Some 9 else None)"

definition hex_digit :: "nat \<Rightarrow> nat option" where
  "hex_digit c =
     (if 48 \<le> c \<and> c \<le> 57 then Some (c - 48)
      else if 97 \<le> c \<and> c \<le> 102 then Some (c - 87)
      else if 65 \<le> c \<and> c \<le> 70 then Some (c - 55)
      else None)"

definition decode_uXXXX :: "ustr \<Rightarrow> nat option" where
  "decode_uXXXX s =
     (case map hex_digit (take 4 s) of
        [Some a, Some b, Some c, Some d] \<Rightarrow> Some (((a * 16 + b) * 16 + c) * 16 + d)
      | _ \<Rightarrow> None)"

text \<open>
  \<open>scanstring\<close> in strict mode, from the character after the opening quote: the decoded
  string and the rest after the closing quote. A high surrogate followed by an escaped
  low surrogate is one code point.
\<close>

fun scanstring :: "ustr \<Rightarrow> exn + ustr \<times> ustr" where
  "scanstring [] = Inl JSONDecodeError"
| "scanstring (c # s) =
     (if c = 34 then Inr ([], s)
      else if c = 92 then
        (case s of
           [] \<Rightarrow> Inl JSONDecodeError
         | esc # s' \<Rightarrow>
            if esc \<noteq> 117 then
              (case backslash esc of
                 None \<Rightarrow> Inl JSONDecodeError
               | Some ch \<Rightarrow>
                  (case scanstring s' of
                     Inl e \<Rightarrow> Inl e
                   | Inr (str, r) \<Rightarrow> Inr (ch # str, r)))
            else
              (case decode_uXXXX s' of
                 None \<Rightarrow> Inl JSONDecodeError
               | Some uni \<Rightarrow>
                  if 55296 \<le> uni \<and> uni \<le> 56319 \<and> take 2 (drop 4 s') = [92, 117] then
                    (case decode_uXXXX (drop 6 s') of
                       None \<Rightarrow> Inl JSONDecodeError
                     | Some uni2 \<Rightarrow>
                        if 56320 \<le> uni2 \<and> uni2 \<le> 57343 then
                          (case scanstring (drop 10 s') of
                             Inl e \<Rightarrow> Inl e
                           | Inr (str, r) \<Rightarrow>
                               Inr ((65536 + ((uni - 55296) * 1024 + (uni2 - 56320))) # str, r))
                        else
                          (case scanstring (drop 4 s') of
                             Inl e \<Rightarrow> Inl e
                           | Inr (str, r) \<Rightarrow> Inr (uni # str, r)))
                  else
                    (case scanstring (drop 4 s') of
                       Inl e \<Rightarrow> Inl e
                     | Inr (str, r) \<Rightarrow> Inr (uni # str, r))))
      else if c < 32 then Inl JSONDecodeError
      else
        (case scanstring s of
           Inl e \<Rightarrow> Inl e
         | Inr (str, r) \<Rightarrow> Inr (c # str, r)))"

text \<open>\<open>dict(pairs)\<close>: a key that comes again keeps its place and takes the later value.\<close>

definition dict :: "(ustr \<times> pyval) list \<Rightarrow> (ustr \<times> pyval) list" where
  "dict pairs = foldl (\<lambda>d (k, v). AList.update k v d) [] pairs"

text \<open>
  \<open>_scan_once\<close>, \<open>JSONArray\<close> and \<open>JSONObject\<close>. The first argument bounds the number of
  nested calls; when it is used up the decoder raises \<open>RecursionError\<close>, as Python does
  at its recursion limit.
\<close>

fun scan_once :: "nat \<Rightarrow> ustr \<Rightarrow> exn + pyval \<times> ustr"
  and array_items :: "nat \<Rightarrow> ustr \<Rightarrow> pyval list \<Rightarrow> exn + pyval \<times> ustr"
  and object_pairs :: "nat \<Rightarrow> ustr \<Rightarrow> (ustr \<times> pyval) list \<Rightarrow> exn + pyval \<times> ustr" where
  "scan_once 0 s = Inl RecursionError"
| "scan_once (Suc n) s =
     (case s of
        [] \<Rightarrow> Inl JSONDecodeError
      | c # r \<Rightarrow>
         if c = 34 then
           (case scanstring r of Inl e \<Rightarrow> Inl e | Inr (str, r') \<Rightarrow> Inr (PyStr str, r'))
         else if c = 123 then
           (case skip_ws r of
              [] \<Rightarrow> Inl JSONDecodeError
            | c' # r' \<Rightarrow>
                if c' = 125 then Inr (PyDict [], r')
                else if c' = 34 then object_pairs n r' []
                else Inl JSONDecodeError)
         else if c = 91 then
           (case skip_ws r of
              [] \<Rightarrow> array_items n [] []
            | c' # r' \<Rightarrow> if c' = 93 then Inr (PyList [], r') else array_items n (c' # r') [])
         else if startswith s (ascii ''null'') then Inr (PyNone, drop 4 s)
         else if startswith s (ascii ''true'') then Inr (PyBool True, drop 4 s)
         else if startswith s (ascii ''false'') then Inr (PyBool False, drop 5 s)
         else
           (case match_number s of
              Some res \<Rightarrow> Inr res
            | None \<Rightarrow>
                if startswith s (ascii ''NaN'') then Inr (PyFloat (ascii ''nan''), drop 3 s)
                else if startswith s (ascii ''Infinity'')
                then Inr (PyFloat (ascii ''inf''), drop 8 s)
                else if startswith s (ascii ''-Infinity'')
                then Inr (PyFloat (ascii ''-inf''), drop 9 s)
                else Inl JSONDecodeError))"
| "array_items 0 s vs = Inl RecursionError"
| "array_items (Suc n) s vs =
     (case scan_once n s of
        Inl e \<Rightarrow> Inl e
      | Inr (v, r) \<Rightarrow>
         (case skip_ws r of
            [] \<Rightarrow> Inl JSONDecodeError
          | c # r' \<Rightarrow>
              if c = 93 then Inr (PyList (vs @ [v]), r')
              else if c \<noteq> 44 then Inl JSONDecodeError
              else array_items n (skip_ws r') (vs @ [v])))"
| "object_pairs 0 s ps = Inl RecursionError"
| "object_pairs (Suc n) s ps =
     (case scanstring s of
        Inl e \<Rightarrow> Inl e
      | Inr (key, r) \<Rightarrow>
         (case skip_ws r of
            [] \<Rightarrow> Inl JSONDecodeError
          | c # r' \<Rightarrow>
              if c \<noteq> 58 then Inl JSONDecodeError
              else
               (case scan_once n (skip_ws r') of
                  Inl e \<Rightarrow> Inl e
                | Inr (v, r2) \<Rightarrow>
                   (case skip_ws r2 of
                      [] \<Rightarrow> Inl JSONDecodeError
                    | c2 # r3 \<Rightarrow>
                        if c2 = 125 then Inr (PyDict (dict (ps @ [(key, v)])), r3)
                        else if c2 \<noteq> 44 then Inl JSONDecodeError
                        else
                         (case skip_ws r3 of
                            [] \<Rightarrow> Inl JSONDecodeError
                          | c3 # r4 \<Rightarrow>
                              if c3 = 34 then object_pairs n r4 (ps @ [(key, v)])
                              else Inl JSONDecodeError)))))"

text \<open>
  \<open>json.loads\<close> on a str: no byte order mark, one value between whitespace, nothing
  after it.
\<close>

definition json_decode :: "ustr \<Rightarrow> exn + pyval" where
  "json_decode s =
     (if startswith s [65279] then Inl JSONDecodeError
      else
        (case scan_once (2 * length s + 2) (skip_ws s) of
           Inl e \<Rightarrow> Inl e
         | Inr (v, r) \<Rightarrow> if skip_ws r = [] then Inr v else Inl JSONDecodeError))"

text \<open>
  The environment of the examples: a given client and the decoder above. No example
  reaches \<open>int()\<close> of a str or a float, or \<open>str()\<close> of a value that is not a str, so these
  two answer with a fixed value here.
\<close>

definition example_env :: "(nat \<Rightarrow> request \<Rightarrow> exn + ustr) \<Rightarrow> pyenv" where
  "example_env client =
     \<lparr>generate_content = client, json_loads = json_decode,
      builtin_int = (\<lambda>v. Inl ValueError), builtin_str = (\<lambda>v. [])\<rparr>"


section \<open>Facts shared by the proofs\<close>

lemma range_max_retries: "[0..<max_retries] = [0, 1, 2]"
  by (simp add: max_retries_def upt_rec)

lemma try_body_raise:
  "generate_content E i (evaluation_request p) = Inl e \<Longrightarrow> calls tr = i \<Longrightarrow>
   try_body E p attempt tr = (Inl e, tr @ [Generate (evaluation_request p)])"
  by (simp add: try_body_def)

lemma try_body_reply:
  "generate_content E i (evaluation_request p) = Inr text \<Longrightarrow> calls tr = i \<Longrightarrow>
   try_body E p attempt tr = handle_response E attempt text (tr @ [Generate (evaluation_request p)])"
  by (simp add: try_body_def)

lemma handle_response_undecodable:
  "json_loads E (strip_code_block (strip text)) = Inl e \<Longrightarrow> is_JSONDecodeError e \<Longrightarrow>
   handle_response E attempt text tr = retry_or_give_up attempt parse_problem_message tr"
  by (simp add: handle_response_def)

lemma handle_response_valid:
  assumes "json_loads E (strip_code_block (strip text)) = Inr (PyDict d)"
    and "map_of d score_key = Some (PyInt n)"
    and "map_of d feedback_key = Some (PyStr f)"
  shows "handle_response E attempt text tr = (Inr (Return (correct_range n, f)), tr)"
  using assms by (simp add: handle_response_def field_missing_def convert_fields_def)

lemma try_body_final:
  "\<not> attempt < max_retries - 1 \<Longrightarrow> fst (try_body E p attempt tr) \<noteq> Inr Continue"
  unfolding try_body_def handle_response_def retry_or_give_up_def
  by (simp add: Let_def split: sum.splits prod.splits)

lemma attempt_loop_returns:
  "rest \<noteq> [] \<Longrightarrow> last rest = max_retries - 1 \<Longrightarrow>
   \<exists>r tr'. attempt_loop E p rest tr = (Inr (Some r), tr')"
proof (induction rest arbitrary: tr)
  case Nil
  then show ?case by simp
next
  case (Cons attempt rest)
  obtain x tr1 where body: "try_body E p attempt tr = (x, tr1)"
    by (cases "try_body E p attempt tr")
  show ?case
  proof (cases rest)
    case Nil
    with Cons.prems have final: "attempt = max_retries - 1" by simp
    then have "x \<noteq> Inr Continue"
      using try_body_final [of attempt E p tr] body by simp
    then show ?thesis
      using body final Nil
      by (cases x) (auto simp: Let_def split: attempt_result.splits)
  next
    case (Cons a as)
    then have "\<exists>r tr'. attempt_loop E p rest tr2 = (Inr (Some r), tr')" for tr2
      using Cons.IH Cons.prems by simp
    then show ?thesis
      using body
      by (cases x) (auto simp: Let_def split: attempt_result.splits)
  qed
qed

lemma long_enough: "\<not> length (strip u) < 10 \<Longrightarrow> u \<noteq> []"
  by (auto simp: strip_def)

lemma evaluate_writing_long:
  assumes "\<not> length (strip user_input) < 10"
  shows "evaluate_writing E user_input grade subject writing_type =
    (case attempt_loop E (evaluation_prompt user_input grade subject writing_type) [0, 1, 2] [] of
       (Inl e, tr) \<Rightarrow> (Inl e, tr)
     | (Inr (Some r), tr) \<Rightarrow> (Inr r, tr)
     | (Inr None, tr) \<Rightarrow> (Inr (30, exhausted_message), tr))"
  unfolding evaluate_writing_def range_max_retries
  using assms long_enough [OF assms] by simp

lemmas fuel_numeral =
  scan_once.simps(2) [of "pred_numeral k" for k, folded numeral_eq_Suc]
  array_items.simps(2) [of "pred_numeral k" for k, folded numeral_eq_Suc]
  object_pairs.simps(2) [of "pred_numeral k" for k, folded numeral_eq_Suc]

lemmas decode_simps = json_decode_def fuel_numeral skip_ws_def json_ws_def
  startswith_def match_number_def match_fraction_def match_exponent_def is_digit_def
  nat_of_digits_def dict_def score_key_def feedback_key_def

lemmas strip_simps = strip_def isspace_def ascii_def

text \<open>The loop over the three attempts, for three behaviours of the body.\<close>

lemma attempt_loop_all_raise:
  assumes "\<And>a tr. calls tr < 3 \<Longrightarrow>
     try_body E p a tr = (Inl (err (calls tr)), tr @ [Generate (evaluation_request p)])"
  shows "attempt_loop E p [0, 1, 2] [] =
    (Inr (Some (30, apology_message)),
     [Generate (evaluation_request p), Print (Evaluation_error 1 3 (err 0)), Sleep 2,
      Generate (evaluation_request p), Print (Evaluation_error 2 3 (err 1)), Sleep 2,
      Generate (evaluation_request p), Print (Evaluation_error 3 3 (err 2))])"
proof -
  let ?g = "Generate (evaluation_request p)"
  have b0: "try_body E p a [] = (Inl (err 0), [?g])" for a
    using assms [of "[]" a] by (simp add: calls_def)
  have b1: "try_body E p a [?g, Print l, Sleep 2] = (Inl (err 1), [?g, Print l, Sleep 2, ?g])"
    for a l
    using assms [of "[?g, Print l, Sleep 2]" a] by (simp add: calls_def)
  have b2: "try_body E p a [?g, Print l, Sleep 2, ?g, Print l', Sleep 2] =
      (Inl (err 2), [?g, Print l, Sleep 2, ?g, Print l', Sleep 2, ?g])" for a l l'
    using assms [of "[?g, Print l, Sleep 2, ?g, Print l', Sleep 2]" a]
    by (simp add: calls_def numeral_2_eq_2)
  show ?thesis
    by (simp add: b0 b1 b2 max_retries_def)
qed

lemma attempt_loop_all_undecodable:
  assumes "\<And>i. i < 3 \<Longrightarrow> generate_content E i (evaluation_request p) = Inr (reply i)"
    and "\<And>i. i < 3 \<Longrightarrow> json_loads E (strip_code_block (strip (reply i))) = Inl JSONDecodeError"
  shows "attempt_loop E p [0, 1, 2] [] =
    (Inr (Some (50, parse_problem_message)),
     [Generate (evaluation_request p), Sleep 1, Generate (evaluation_request p), Sleep 1,
      Generate (evaluation_request p)])"
proof -
  let ?g = "Generate (evaluation_request p)"
  have body: "try_body E p a tr = retry_or_give_up a parse_problem_message (tr @ [?g])"
    if "calls tr < 3" for a tr
    using try_body_reply [of E "calls tr" p "reply (calls tr)" tr a]
      handle_response_undecodable [of E "reply (calls tr)" JSONDecodeError a "tr @ [?g]"]
      assms(1) [OF that] assms(2) [OF that]
    by simp
  have b0: "try_body E p 0 [] = (Inr Continue, [?g, Sleep 1])"
    using body [of "[]" 0] by (simp add: calls_def retry_or_give_up_def max_retries_def)
  have b1: "try_body E p 1 [?g, Sleep 1] = (Inr Continue, [?g, Sleep 1, ?g, Sleep 1])"
    using body [of "[?g, Sleep 1]" 1]
    by (simp add: calls_def retry_or_give_up_def max_retries_def)
  have b2: "try_body E p 2 [?g, Sleep 1, ?g, Sleep 1] =
      (Inr (Return (50, parse_problem_message)), [?g, Sleep 1, ?g, Sleep 1, ?g])"
    using body [of "[?g, Sleep 1, ?g, Sleep 1]" 2]
    by (simp add: calls_def retry_or_give_up_def max_retries_def)
  show ?thesis
    by (simp only: attempt_loop.simps b0 b1 b2 prod.case sum.case attempt_result.case)
qed

lemma attempt_loop_valid:
  assumes "generate_content E (calls tr) (evaluation_request p) = Inr reply"
    and "json_loads E (strip_code_block (strip reply)) = Inr (PyDict d)"
    and "map_of d score_key = Some (PyInt n)"
    and "map_of d feedback_key = Some (PyStr f)"
  shows "attempt_loop E p (attempt # rest) tr =
    (Inr (Some (correct_range n, f)), tr @ [Generate (evaluation_request p)])"
proof -
  have "try_body E p attempt tr =
      (Inr (Return (correct_range n, f)), tr @ [Generate (evaluation_request p)])"
    using try_body_reply [of E "calls tr" p reply tr attempt]
      handle_response_valid [of E reply d n f attempt "tr @ [Generate (evaluation_request p)]"]
      assms
    by simp
  then show ?thesis by simp
qed

text \<open>
  The two failures after decoding that the code answers as it answers a text it cannot
  decode, each with a message of its own: a key that is missing, and a conversion that
  raises \<open>ValueError\<close>.
\<close>

lemma field_missing_dict:
  "field_missing (PyDict d) = Inr (map_of d score_key = None \<or> map_of d feedback_key = None)"
  by (auto simp: field_missing_def)

lemma handle_response_missing_key:
  assumes "json_loads E (strip_code_block (strip reply)) = Inr (PyDict d)"
    and "map_of d score_key = None \<or> map_of d feedback_key = None"
  shows "handle_response E attempt reply tr =
         retry_or_give_up attempt result_problem_message tr"
  using assms by (simp add: handle_response_def field_missing_dict)

lemma handle_response_value_error:
  assumes "json_loads E (strip_code_block (strip reply)) = Inr (PyDict d)"
    and "map_of d score_key = Some v" and "map_of d feedback_key = Some w"
    and "py_int E v = Inl ValueError"
  shows "handle_response E attempt reply tr =
         retry_or_give_up attempt score_problem_message tr"
  using assms by (simp add: handle_response_def field_missing_dict convert_fields_def)

text \<open>The values of the texts that the examples decode.\<close>

lemma decode_plain_80:
  "json_decode (ascii ''{\"score\": 80, \"feedback\": \"Good\"}'') =
     Inr (PyDict [(score_key, PyInt 80), (feedback_key, PyStr (ascii ''Good''))])"
  by (simp add: ascii_def decode_simps)

lemma decode_tag_left:
  "json_decode (ascii ''python'' @ [10] @ ascii ''{\"score\": 80, \"feedback\": \"Good\"}'') =
     Inl JSONDecodeError"
  by (simp add: ascii_def decode_simps)

lemma decode_null_score:
  "json_decode (ascii ''{\"score\": null, \"feedback\": \"Good\"}'') =
     Inr (PyDict [(score_key, PyNone), (feedback_key, PyStr (ascii ''Good''))])"
  by (simp add: ascii_def decode_simps)

lemma keys_differ: "score_key \<noteq> feedback_key"
  by (simp add: score_key_def feedback_key_def ascii_def)

text \<open>What \<open>evaluate_writing\<close> does depends on the texts of the model only through what is
  left of them once the whitespace and the fence are cut off.\<close>

lemma py_int_client: "py_int (E\<lparr>generate_content := g\<rparr>) v = py_int E v"
  by (cases v) simp_all

lemma py_str_client: "py_str (E\<lparr>generate_content := g\<rparr>) v = py_str E v"
  by (cases v) simp_all

lemma convert_fields_client:
  "convert_fields (E\<lparr>generate_content := g\<rparr>) result = convert_fields E result"
  by (simp add: convert_fields_def py_int_client py_str_client cong: sum.case_cong)

lemma handle_response_client:
  "handle_response (E\<lparr>generate_content := g\<rparr>) attempt reply tr =
   handle_response E attempt reply tr"
  by (simp add: handle_response_def convert_fields_client cong: sum.case_cong if_cong)

lemma handle_response_same_block:
  "strip_code_block (strip t1) = strip_code_block (strip t2) \<Longrightarrow>
   handle_response E attempt t1 tr = handle_response E attempt t2 tr"
  by (simp add: handle_response_def)

lemma try_body_same_blocks:
  assumes "\<And>i r. map_sum id (\<lambda>t. strip_code_block (strip t)) (g1 i r) =
                 map_sum id (\<lambda>t. strip_code_block (strip t)) (g2 i r)"
  shows "try_body (E\<lparr>generate_content := g1\<rparr>) p attempt tr =
         try_body (E\<lparr>generate_content := g2\<rparr>) p attempt tr"
proof -
  let ?r = "evaluation_request p"
  show ?thesis
  proof (cases "g1 (calls tr) ?r")
    case (Inl e)
    with assms [of "calls tr" ?r] have "g2 (calls tr) ?r = Inl e"
      by (cases "g2 (calls tr) ?r") simp_all
    with Inl show ?thesis by (simp add: try_body_def)
  next
    case (Inr t1)
    with assms [of "calls tr" ?r] obtain t2 where t2: "g2 (calls tr) ?r = Inr t2"
      and eq: "strip_code_block (strip t1) = strip_code_block (strip t2)"
      by (cases "g2 (calls tr) ?r") simp_all
    show ?thesis
      using Inr t2 handle_response_same_block [OF eq]
      by (simp add: try_body_def handle_response_client)
  qed
qed

lemma attempt_loop_same_blocks:
  assumes "\<And>i r. map_sum id (\<lambda>t. strip_code_block (strip t)) (g1 i r) =
                 map_sum id (\<lambda>t. strip_code_block (strip t)) (g2 i r)"
  shows "attempt_loop (E\<lparr>generate_content := g1\<rparr>) p rest tr =
         attempt_loop (E\<lparr>generate_content := g2\<rparr>) p rest tr"
proof (induction rest arbitrary: tr)
  case Nil
  show ?case by simp
next
  case (Cons attempt rest)
  obtain x tr1 where body: "try_body (E\<lparr>generate_content := g2\<rparr>) p attempt tr = (x, tr1)"
    by (cases "try_body (E\<lparr>generate_content := g2\<rparr>) p attempt tr")
  show ?case
  proof (cases x)
    case (Inl e)
    then show ?thesis
      by (simp add: try_body_same_blocks [of g1 g2, OF assms] body Cons.IH Let_def)
  next
    case (Inr res)
    then show ?thesis
      by (cases res) (simp_all add: try_body_same_blocks [of g1 g2, OF assms] body Cons.IH)
  qed
qed

lemma evaluate_writing_same_blocks:
  assumes "\<And>i r. map_sum id (\<lambda>t. strip_code_block (strip t)) (g1 i r) =
                 map_sum id (\<lambda>t. strip_code_block (strip t)) (g2 i r)"
  shows "evaluate_writing (E\<lparr>generate_content := g1\<rparr>) u g s w =
         evaluate_writing (E\<lparr>generate_content := g2\<rparr>) u g s w"
  by (simp add: evaluate_writing_def attempt_loop_same_blocks [of g1 g2, OF assms])

lemma dropWhile_hd: "ys \<noteq> [] \<Longrightarrow> \<not> P (hd ys) \<Longrightarrow> dropWhile P ys = ys"
  by (cases ys) simp_all

lemma strip_surrounded:
  assumes "\<forall>c\<in>set lead. isspace c" and "\<forall>c\<in>set trail. isspace c"
    and "x \<noteq> []" and "\<not> isspace (hd x)" and "\<not> isspace (last x)"
  shows "strip (lead @ x @ trail) = x"
proof -
  have "dropWhile isspace (lead @ x @ trail) = dropWhile isspace (x @ trail)"
    using assms(1) by (intro dropWhile_append2) simp
  also have "\<dots> = x @ trail"
    using assms(3,4) by (intro dropWhile_hd) simp_all
  finally have front: "dropWhile isspace (lead @ x @ trail) = x @ trail" .
  have "dropWhile isspace (rev trail @ rev x) = dropWhile isspace (rev x)"
    using assms(2) by (intro dropWhile_append2) simp
  also have "\<dots> = rev x"
    using assms(3,5) by (intro dropWhile_hd) (simp_all add: hd_rev)
  finally show ?thesis
    by (simp add: strip_def front)
qed

lemma fence_facts:
  "fence = [96, 96, 96]" "fence_json = [96, 96, 96, 106, 115, 111, 110]"
  "fence_json = fence @ ascii ''json''"
  by (simp_all add: fence_def fence_json_def ascii_def)

lemma startswith_iff: "startswith s p \<longleftrightarrow> (\<exists>r. s = p @ r)"
proof
  assume "startswith s p"
  then have "s = p @ drop (length p) s"
    by (metis append_take_drop_id startswith_def)
  then show "\<exists>r. s = p @ r" ..
next
  assume "\<exists>r. s = p @ r"
  then show "startswith s p" by (auto simp: startswith_def)
qed

lemma fenced_not_json:
  assumes "\<not> startswith t (ascii ''json'')"
  shows "\<not> startswith (fence @ t @ fence) fence_json"
proof
  assume "startswith (fence @ t @ fence) fence_json"
  then obtain r where "t @ fence = ascii ''json'' @ r"
    by (auto simp: startswith_iff fence_facts(3))
  then obtain us where "t = ascii ''json'' @ us \<or> (t @ us = ascii ''json'' \<and> fence = us @ r)"
    by (auto simp: append_eq_append_conv2)
  then show False
  proof
    assume "t = ascii ''json'' @ us"
    with assms show False by (simp add: startswith_iff)
  next
    assume a: "t @ us = ascii ''json'' \<and> fence = us @ r"
    show False
    proof (cases us)
      case Nil
      with a assms show False by (simp add: startswith_iff)
    next
      case (Cons c cs)
      with a have "c = 96" by (simp add: fence_facts(1))
      moreover from a Cons have "c \<in> set (ascii ''json'')"
        by (metis in_set_conv_decomp)
      ultimately show False by (simp add: ascii_def)
    qed
  qed
qed

lemma strip_code_block_fenced:
  assumes "tag = ascii ''json'' \<or> (tag = [] \<and> \<not> startswith t (ascii ''json''))"
  shows "strip_code_block (fence @ tag @ t @ fence) = strip t"
  using assms
proof
  assume "tag = ascii ''json''"
  then show ?thesis
    by (simp add: strip_code_block_def startswith_def slice_def fence_facts(1,2) ascii_def)
next
  assume a: "tag = [] \<and> \<not> startswith t (ascii ''json'')"
  then have "\<not> startswith (fence @ t @ fence) fence_json"
    by (simp add: fenced_not_json)
  moreover have "startswith (fence @ t @ fence) fence" "slice (fence @ t @ fence) 3 3 = t"
    by (simp_all add: startswith_def slice_def fence_facts(1))
  ultimately show ?thesis
    using a by (simp add: strip_code_block_def)
qed

lemma strip_code_block_plain:
  assumes "\<not> startswith s fence"
  shows "strip_code_block s = s"
proof -
  have "\<not> startswith s fence_json"
    using assms by (auto simp: startswith_iff fence_facts(3))
  with assms show ?thesis by (simp add: strip_code_block_def)
qed

lemma fenced_block:
  assumes "tag = ascii ''json'' \<or> (tag = [] \<and> \<not> startswith t (ascii ''json''))"
    and "\<not> startswith (strip t) fence"
    and "\<forall>c\<in>set lead. isspace c" and "\<forall>c\<in>set trail. isspace c"
  shows "strip_code_block (strip (lead @ (fence @ tag @ t @ fence) @ trail)) =
         strip_code_block (strip t)"
proof -
  have "strip (lead @ (fence @ tag @ t @ fence) @ trail) = fence @ tag @ t @ fence"
    using assms(3,4) by (intro strip_surrounded) (simp_all add: fence_facts(1) isspace_def)
  then show ?thesis
    using strip_code_block_fenced [OF assms(1)] strip_code_block_plain [OF assms(2)] by simp
qed

lemma foldl_append_concat: "foldl (\<lambda>acc m. acc @ f m) a xs = a @ concat (map f xs)"
  by (induction xs arbitrary: a) simp_all

section \<open>Claims\<close>

text \<open>
  C4: when the stripped input has fewer than 10 characters, \<open>evaluate_writing\<close> returns
  score 0 with the message of line 78, and its trace is empty: the model is not called.
\<close>

theorem short_input_no_call:
  "length (strip user_input) < 10 \<Longrightarrow>
   evaluate_writing E user_input grade subject writing_type = (Inr (0, too_short_message), [])"
  by (simp add: evaluate_writing_def)

theorem short_input_no_call_witness:
  "length (strip (ascii ''  Hello.  '')) < 10 \<and>
   evaluate_writing (example_env (\<lambda>i r. Inr [])) (ascii ''  Hello.  '') [] [] [] =
     (Inr (0, too_short_message), [])"
  using short_input_no_call [of "ascii ''  Hello.  ''" "example_env (\<lambda>i r. Inr [])" "[]" "[]" "[]"]
  by (simp add: strip_simps)

text \<open>
  C7: when each of the three calls raises, \<open>evaluate_writing\<close> returns score 30 with the
  message of line 164. The trace has exactly three calls of the model, and a sleep of two
  seconds between one attempt and the next.
\<close>

theorem transport_failures_apology:
  assumes "\<not> length (strip user_input) < 10"
    and "\<And>i. i < 3 \<Longrightarrow> generate_content E i req = Inl (err i)"
    and "req = evaluation_request (evaluation_prompt user_input grade subject writing_type)"
  shows "evaluate_writing E user_input grade subject writing_type =
    (Inr (30, apology_message),
     [Generate req, Print (Evaluation_error 1 3 (err 0)), Sleep 2,
      Generate req, Print (Evaluation_error 2 3 (err 1)), Sleep 2,
      Generate req, Print (Evaluation_error 3 3 (err 2))])"
proof -
  let ?p = "evaluation_prompt user_input grade subject writing_type"
  have "try_body E ?p a tr = (Inl (err (calls tr)), tr @ [Generate (evaluation_request ?p)])"
    if "calls tr < 3" for a tr
    using try_body_raise [of E "calls tr" ?p "err (calls tr)" tr a] assms(2) [OF that] assms(3)
    by simp
  then show ?thesis
    using attempt_loop_all_raise [of E ?p err] assms(3)
    by (simp add: evaluate_writing_long [OF assms(1)])
qed

theorem transport_failures_apology_witness:
  "evaluate_writing (example_env (\<lambda>i r. Inl (OtherException (ascii ''503 unavailable''))))
     (ascii ''My dog likes to run.'') (ascii ''3'') (ascii ''art'') (ascii ''diary'') =
   (Inr (30, apology_message),
     [Generate (evaluation_request (evaluation_prompt (ascii ''My dog likes to run.'') (ascii ''3'') (ascii ''art'') (ascii ''diary''))),
      Print (Evaluation_error 1 3 (OtherException (ascii ''503 unavailable''))), Sleep 2,
      Generate (evaluation_request (evaluation_prompt (ascii ''My dog likes to run.'') (ascii ''3'') (ascii ''art'') (ascii ''diary''))),
      Print (Evaluation_error 2 3 (OtherException (ascii ''503 unavailable''))), Sleep 2,
      Generate (evaluation_request (evaluation_prompt (ascii ''My dog likes to run.'') (ascii ''3'') (ascii ''art'') (ascii ''diary''))),
      Print (Evaluation_error 3 3 (OtherException (ascii ''503 unavailable'')))])"
  using transport_failures_apology
    [of "ascii ''My dog likes to run.''"
        "example_env (\<lambda>i r. Inl (OtherException (ascii ''503 unavailable'')))"
        "evaluation_request (evaluation_prompt (ascii ''My dog likes to run.'') (ascii ''3'') (ascii ''art'') (ascii ''diary''))"
        "\<lambda>i. OtherException (ascii ''503 unavailable'')"
        "ascii ''3''" "ascii ''art''" "ascii ''diary''"]
  by (simp add: example_env_def strip_simps)




text \<open>
  C5: when a call of the model yields a text that decodes to a dict whose \<open>score\<close> is an
  int and whose \<open>feedback\<close> is a str, the loop returns in that attempt, whichever it is
  and whatever happened before, with no further call; when it is the first call,
  \<open>evaluate_writing\<close> returns after this one call. The feedback is returned as it is and
  the score is pulled into the range from 0 to 100: a score in the range is unchanged,
  a negative one becomes 0, one above 100 becomes 100.
\<close>

theorem valid_reply_score_in_range:
  assumes "generate_content E (calls tr) req = Inr reply"
    and "json_loads E (strip_code_block (strip reply)) = Inr (PyDict d)"
    and "map_of d score_key = Some (PyInt n)"
    and "map_of d feedback_key = Some (PyStr f)"
    and "req = evaluation_request (evaluation_prompt user_input grade subject writing_type)"
    and "result = (if n < 0 then 0 else if 100 < n then 100 else n, f)"
  shows "attempt_loop E (evaluation_prompt user_input grade subject writing_type)
           (attempt # rest) tr = (Inr (Some result), tr @ [Generate req])
    \<and> (tr = [] \<and> \<not> length (strip user_input) < 10 \<longrightarrow>
         evaluate_writing E user_input grade subject writing_type =
           (Inr result, [Generate req]))"
proof -
  let ?p = "evaluation_prompt user_input grade subject writing_type"
  have range: "correct_range n = (if n < 0 then 0 else if 100 < n then 100 else n)"
    by (simp add: correct_range_def)
  have loop: "attempt_loop E ?p (a # as) tr = (Inr (Some result), tr @ [Generate req])" for a as
    using attempt_loop_valid [of E tr ?p reply d n f a as] assms range by simp
  have "evaluate_writing E user_input grade subject writing_type = (Inr result, [Generate req])"
    if "tr = []" and long: "\<not> length (strip user_input) < 10"
    using loop [of 0 "[1, 2]"] that(1) by (simp add: evaluate_writing_long [OF long])
  with loop [of attempt rest] show ?thesis by simp
qed

theorem valid_reply_score_in_range_witness:
  "evaluate_writing
     (example_env (\<lambda>i r. Inr (ascii ''{\"score\": 150, \"feedback\": \"Well done\"}'')))
     (ascii ''My dog likes to run.'') (ascii ''3'') (ascii ''art'') (ascii ''diary'') =
   (Inr (100, ascii ''Well done''), [Generate (evaluation_request (evaluation_prompt (ascii ''My dog likes to run.'') (ascii ''3'') (ascii ''art'') (ascii ''diary'')))])"
proof -
  have decoded:
    "json_decode (strip_code_block (strip (ascii ''{\"score\": 150, \"feedback\": \"Well done\"}''))) =
       Inr (PyDict [(score_key, PyInt 150), (feedback_key, PyStr (ascii ''Well done''))])"
    by (simp add: strip_code_block_def fence_json_def fence_def strip_simps decode_simps)
  show ?thesis
    using decoded keys_differ valid_reply_score_in_range
      [of "example_env (\<lambda>i r. Inr (ascii ''{\"score\": 150, \"feedback\": \"Well done\"}''))"
          "[]"
          "evaluation_request (evaluation_prompt (ascii ''My dog likes to run.'') (ascii ''3'') (ascii ''art'') (ascii ''diary''))"
          "ascii ''{\"score\": 150, \"feedback\": \"Well done\"}''"
          "[(score_key, PyInt 150), (feedback_key, PyStr (ascii ''Well done''))]"
          150 "ascii ''Well done''"
          "ascii ''My dog likes to run.''" "ascii ''3''" "ascii ''art''" "ascii ''diary''"
          "(100, ascii ''Well done'')" 0 "[1, 2]"]
    by (simp add: example_env_def strip_simps calls_def)
qed

text \<open>
  C8: \<open>have_conversation\<close> calls the model exactly once. When the call raises, it returns
  the message of line 216 and does not call again; when the call yields a text, it
  returns the text stripped of surrounding whitespace.
\<close>

theorem conversation_single_call:
  assumes "req = conversation_request
             (conversation_prompt user_input grade subject writing_type chat_history)"
  shows "calls (snd (have_conversation E user_input grade subject writing_type chat_history)) = 1
    \<and> (\<forall>e. generate_content E 0 req = Inl e \<longrightarrow>
          have_conversation E user_input grade subject writing_type chat_history =
            (Inr chat_apology_message, [Generate req, Print (Conversation_error e)]))
    \<and> (\<forall>reply. generate_content E 0 req = Inr reply \<longrightarrow>
          have_conversation E user_input grade subject writing_type chat_history =
            (Inr (strip reply), [Generate req]))"
  using assms
  by (simp add: have_conversation_def Let_def calls_def split: sum.splits)

theorem conversation_single_call_witness:
  "have_conversation (example_env (\<lambda>i r. Inl (OtherException (ascii ''quota''))))
      (ascii ''How do I start?'') (ascii ''3'') (ascii ''art'') (ascii ''diary'') [] =
     (Inr chat_apology_message,
      [Generate (conversation_request (conversation_prompt (ascii ''How do I start?'')
         (ascii ''3'') (ascii ''art'') (ascii ''diary'') [])),
       Print (Conversation_error (OtherException (ascii ''quota'')))])
   \<and> have_conversation (example_env (\<lambda>i r. Inr (ascii '' Begin with a picture.  '' @ [10])))
      (ascii ''How do I start?'') (ascii ''3'') (ascii ''art'') (ascii ''diary'') [] =
     (Inr (ascii ''Begin with a picture.''),
      [Generate (conversation_request (conversation_prompt (ascii ''How do I start?'')
         (ascii ''3'') (ascii ''art'') (ascii ''diary'') []))])"
  using
    conversation_single_call
      [of "conversation_request (conversation_prompt (ascii ''How do I start?'')
             (ascii ''3'') (ascii ''art'') (ascii ''diary'') [])"
          "ascii ''How do I start?''" "ascii ''3''" "ascii ''art''" "ascii ''diary''" "[]"
          "example_env (\<lambda>i r. Inl (OtherException (ascii ''quota'')))"]
    conversation_single_call
      [of "conversation_request (conversation_prompt (ascii ''How do I start?'')
             (ascii ''3'') (ascii ''art'') (ascii ''diary'') [])"
          "ascii ''How do I start?''" "ascii ''3''" "ascii ''art''" "ascii ''diary''" "[]"
          "example_env (\<lambda>i r. Inr (ascii '' Begin with a picture.  '' @ [10]))"]
  by (simp add: example_env_def strip_simps)

text \<open>
  C10: the return of line 167 is never reached. On the last attempt the body of the
  \<open>try\<close> never ends in \<open>continue\<close>, and whatever the calls of the model do, the loop over
  the three attempts ends in a \<open>return\<close> of its own.
\<close>

theorem loop_returns_inside:
  "fst (try_body E p (max_retries - 1) tr) \<noteq> Inr Continue
   \<and> (\<exists>r tr'. attempt_loop E p [0..<max_retries] tr = (Inr (Some r), tr'))"
proof
  show "fst (try_body E p (max_retries - 1) tr) \<noteq> Inr Continue"
    by (rule try_body_final) simp
  show "\<exists>r tr'. attempt_loop E p [0..<max_retries] tr = (Inr (Some r), tr')"
    by (rule attempt_loop_returns) (simp_all add: max_retries_def)
qed

theorem loop_returns_inside_witness:
  "fst (try_body (example_env (\<lambda>i r. Inr [])) [] (max_retries - 1) []) \<noteq> Inr Continue
   \<and> (\<exists>r tr'. attempt_loop (example_env (\<lambda>i r. Inr [])) [] [0..<max_retries] [] =
         (Inr (Some r), tr'))"
  using loop_returns_inside [of "example_env (\<lambda>i r. Inr [])" "[]" "[]"]
  by simp

text \<open>
  C1: for every input string, every list of turns and every behaviour of the model and
  of the library, both functions return a value: no exception leaves them. Each
  exception raised inside is turned into a pair of score and message, or into the
  message of line 216.
\<close>

theorem both_operations_return:
  "(\<exists>score message tr.
      evaluate_writing E user_input grade subject writing_type = (Inr (score, message), tr))
   \<and> (\<exists>reply tr.
      have_conversation E user_input grade subject writing_type chat_history = (Inr reply, tr))"
proof -
  obtain r tr' where loop:
    "attempt_loop E (evaluation_prompt user_input grade subject writing_type)
       [0..<max_retries] [] = (Inr (Some r), tr')"
    using attempt_loop_returns [of "[0..<max_retries]" E
        "evaluation_prompt user_input grade subject writing_type" "[]"]
    by (auto simp: max_retries_def)
  have "\<exists>score message tr.
      evaluate_writing E user_input grade subject writing_type = (Inr (score, message), tr)"
    unfolding evaluate_writing_def by (cases r) (simp add: loop)
  moreover have "\<exists>reply tr.
      have_conversation E user_input grade subject writing_type chat_history = (Inr reply, tr)"
    unfolding have_conversation_def by (simp add: Let_def split: sum.splits)
  ultimately show ?thesis by simp
qed

theorem both_operations_return_witness:
  "(\<exists>score message tr.
      evaluate_writing (example_env (\<lambda>i r. Inl RecursionError)) (ascii ''My dog likes to run.'')
        [] [] [] = (Inr (score, message), tr))
   \<and> (\<exists>reply tr.
      have_conversation (example_env (\<lambda>i r. Inl RecursionError)) (ascii ''My dog likes to run.'')
        [] [] [] [] = (Inr reply, tr))"
  using both_operations_return
    [of "example_env (\<lambda>i r. Inl RecursionError)" "ascii ''My dog likes to run.''" "[]" "[]" "[]"
        "[]"]
  by simp

text \<open>
  C3, as the code has it: a reply wrapped in a leading and a trailing fence of three
  backticks, with the tag \<open>json\<close> or with no tag, and with whitespace around it or not,
  gives the same result and the same trace as the text between the fences given as the
  reply, when that text (stripped) does not begin with a fence of its own and, for a
  fence with no tag, does not begin with the letters \<open>json\<close>. The calls that raise are
  the same on both sides.
\<close>

theorem fenced_reply_same_result:
  assumes "tag = ascii ''json'' \<or>
           (tag = [] \<and> (\<forall>i r t. client i r = Inr t \<longrightarrow> \<not> startswith t (ascii ''json'')))"
    and "\<forall>i r t. client i r = Inr t \<longrightarrow> \<not> startswith (strip t) fence"
    and "\<forall>c\<in>set lead \<union> set trail. isspace c"
  shows "evaluate_writing
           (E\<lparr>generate_content := \<lambda>i r. case client i r of
                  Inl e \<Rightarrow> Inl e
                | Inr t \<Rightarrow> Inr (lead @ (fence @ tag @ t @ fence) @ trail)\<rparr>)
           user_input grade subject writing_type =
         evaluate_writing (E\<lparr>generate_content := client\<rparr>)
           user_input grade subject writing_type"
proof (rule evaluate_writing_same_blocks)
  fix i r
  show "map_sum id (\<lambda>t. strip_code_block (strip t))
          (case client i r of Inl e \<Rightarrow> Inl e
           | Inr t \<Rightarrow> Inr (lead @ (fence @ tag @ t @ fence) @ trail)) =
        map_sum id (\<lambda>t. strip_code_block (strip t)) (client i r)"
  proof (cases "client i r")
    case (Inl e)
    then show ?thesis by simp
  next
    case (Inr t)
    have "strip_code_block (strip (lead @ (fence @ tag @ t @ fence) @ trail)) =
          strip_code_block (strip t)"
      using assms Inr by (intro fenced_block) auto
    with Inr show ?thesis by simp
  qed
qed

theorem fenced_reply_same_result_witness:
  "evaluate_writing
     (example_env (\<lambda>i r. Inr (fence @ ascii ''json'' @ [10] @
        ascii ''{\"score\": 80, \"feedback\": \"Good\"}'' @ [10] @ fence @ [10])))
     (ascii ''My dog likes to run.'') (ascii ''3'') (ascii ''art'') (ascii ''diary'') =
   evaluate_writing
     (example_env (\<lambda>i r. Inr ([10] @ ascii ''{\"score\": 80, \"feedback\": \"Good\"}'' @ [10])))
     (ascii ''My dog likes to run.'') (ascii ''3'') (ascii ''art'') (ascii ''diary'')"
  using fenced_reply_same_result
    [of "ascii ''json''"
        "\<lambda>i r. Inr ([10] @ ascii ''{\"score\": 80, \"feedback\": \"Good\"}'' @ [10])"
        "[]" "[10]" "example_env (\<lambda>i r. Inr [])"
        "ascii ''My dog likes to run.''" "ascii ''3''" "ascii ''art''" "ascii ''diary''"]
  by (simp add: example_env_def strip_simps startswith_def fence_def)

text \<open>
  C3, as the claim states it, fails for a fence with another tag: after \<open>```python\<close> only
  the three backticks are cut off, the tag stays in front of the JSON text, and the
  text is rejected on each of the three attempts. The same JSON text without the fence
  is accepted on the first.
\<close>

theorem other_tag_counterexample:
  "fst (evaluate_writing
     (example_env (\<lambda>i r. Inr (fence @ ascii ''python'' @ [10] @
        ascii ''{\"score\": 80, \"feedback\": \"Good\"}'' @ [10] @ fence)))
     (ascii ''My dog likes to run.'') (ascii ''3'') (ascii ''art'') (ascii ''diary'')) =
     Inr (50, parse_problem_message)
   \<and> fst (evaluate_writing
     (example_env (\<lambda>i r. Inr ([10] @ ascii ''{\"score\": 80, \"feedback\": \"Good\"}'' @ [10])))
     (ascii ''My dog likes to run.'') (ascii ''3'') (ascii ''art'') (ascii ''diary'')) =
     Inr (80, ascii ''Good'')"
proof -
  let ?json = "ascii ''{\"score\": 80, \"feedback\": \"Good\"}''"
  let ?p = "evaluation_prompt (ascii ''My dog likes to run.'') (ascii ''3'') (ascii ''art'') (ascii ''diary'')"
  let ?fenced = "fence @ ascii ''python'' @ [10] @ ?json @ [10] @ fence"
  have long: "\<not> length (strip (ascii ''My dog likes to run.'')) < 10"
    by (simp add: strip_simps)
  have "strip_code_block (strip ?fenced) = ascii ''python'' @ [10] @ ?json"
    by (simp add: strip_code_block_def startswith_def slice_def fence_def fence_json_def
        strip_simps)
  then have "json_decode (strip_code_block (strip ?fenced)) = Inl JSONDecodeError"
    by (simp only: decode_tag_left)
  then have "attempt_loop (example_env (\<lambda>i r. Inr ?fenced)) ?p [0, 1, 2] [] =
      (Inr (Some (50, parse_problem_message)),
       [Generate (evaluation_request ?p), Sleep 1, Generate (evaluation_request ?p), Sleep 1,
        Generate (evaluation_request ?p)])"
    using attempt_loop_all_undecodable
      [of "example_env (\<lambda>i r. Inr ?fenced)" ?p "\<lambda>i. ?fenced"]
    by (simp add: example_env_def)
  then have left: "fst (evaluate_writing (example_env (\<lambda>i r. Inr ?fenced))
      (ascii ''My dog likes to run.'') (ascii ''3'') (ascii ''art'') (ascii ''diary'')) = Inr (50, parse_problem_message)"
    by (simp add: evaluate_writing_long [OF long])
  have "strip_code_block (strip ([10] @ ?json @ [10])) = ?json"
    by (simp add: strip_code_block_def startswith_def fence_def fence_json_def strip_simps)
  then have "json_decode (strip_code_block (strip ([10] @ ?json @ [10]))) =
      Inr (PyDict [(score_key, PyInt 80), (feedback_key, PyStr (ascii ''Good''))])"
    by (simp only: decode_plain_80)
  then have "attempt_loop (example_env (\<lambda>i r. Inr ([10] @ ?json @ [10]))) ?p [0, 1, 2] [] =
      (Inr (Some (correct_range 80, ascii ''Good'')), [Generate (evaluation_request ?p)])"
    using keys_differ attempt_loop_valid
      [of "example_env (\<lambda>i r. Inr ([10] @ ?json @ [10]))" "[]" ?p "[10] @ ?json @ [10]"
          "[(score_key, PyInt 80), (feedback_key, PyStr (ascii ''Good''))]" 80 "ascii ''Good''"
          0 "[1, 2]"]
    by (simp add: example_env_def calls_def)
  then have right: "fst (evaluate_writing (example_env (\<lambda>i r. Inr ([10] @ ?json @ [10])))
      (ascii ''My dog likes to run.'') (ascii ''3'') (ascii ''art'') (ascii ''diary'')) = Inr (80, ascii ''Good'')"
    by (simp add: evaluate_writing_long [OF long] correct_range_def)
  from left right show ?thesis by simp
qed

text \<open>
  C2, at a reply whose \<open>score\<close> cannot be converted: for \<open>null\<close> the conversion \<open>int(None)\<close>
  raises \<open>TypeError\<close>, which the handler of line 148 does not catch. The handler of line
  161 takes it: the function sleeps two seconds between the attempts and returns
  score 30 with the message of line 164, not score 50 with the message of line 153.
\<close>

theorem null_score_gives_30:
  "evaluate_writing
     (example_env (\<lambda>i r. Inr (ascii ''{\"score\": null, \"feedback\": \"Good\"}'')))
     (ascii ''My dog likes to run.'') (ascii ''3'') (ascii ''art'') (ascii ''diary'') =
   (Inr (30, apology_message),
     [Generate (evaluation_request (evaluation_prompt (ascii ''My dog likes to run.'') (ascii ''3'') (ascii ''art'') (ascii ''diary''))), Print (Evaluation_error 1 3 TypeError), Sleep 2,
      Generate (evaluation_request (evaluation_prompt (ascii ''My dog likes to run.'') (ascii ''3'') (ascii ''art'') (ascii ''diary''))), Print (Evaluation_error 2 3 TypeError), Sleep 2,
      Generate (evaluation_request (evaluation_prompt (ascii ''My dog likes to run.'') (ascii ''3'') (ascii ''art'') (ascii ''diary''))), Print (Evaluation_error 3 3 TypeError)])"
proof -
  let ?reply = "ascii ''{\"score\": null, \"feedback\": \"Good\"}''"
  let ?E = "example_env (\<lambda>i r. Inr ?reply)"
  let ?p = "evaluation_prompt (ascii ''My dog likes to run.'') (ascii ''3'') (ascii ''art'') (ascii ''diary'')"
  have long: "\<not> length (strip (ascii ''My dog likes to run.'')) < 10"
    by (simp add: strip_simps)
  have "strip_code_block (strip ?reply) = ?reply"
    by (simp add: strip_code_block_def startswith_def fence_def fence_json_def strip_simps)
  then have "json_loads ?E (strip_code_block (strip ?reply)) =
      Inr (PyDict [(score_key, PyNone), (feedback_key, PyStr (ascii ''Good''))])"
    by (simp add: example_env_def decode_null_score)
  then have "handle_response ?E a ?reply tr = (Inl TypeError, tr)" for a tr
    using keys_differ
    by (simp add: handle_response_def field_missing_def convert_fields_def)
  then have "try_body ?E ?p a tr =
      (Inl ((\<lambda>i. TypeError) (calls tr)), tr @ [Generate (evaluation_request ?p)])" for a tr
    by (simp add: try_body_def example_env_def)
  then show ?thesis
    using attempt_loop_all_raise [of ?E ?p "\<lambda>i. TypeError"]
    by (simp add: evaluate_writing_long [OF long])
qed

text \<open>
  C9: the transcript is made of the last 8 turns, or of all when there are fewer, in
  their order, one line for each. A line shows the content as it is when it has at most
  100 characters, else its first 97 characters and three dots, so never more than 100.
  It starts with the label of the role, the two syllables of line 177 for a turn of the
  user and the three syllables for any other; after it comes a colon and, when the turn
  has a score, the score in brackets before the content (line 185).
\<close>

theorem transcript_of_recent_turns:
  "history_str chat_history =
     concat (map render_turn (drop (length chat_history - 8) chat_history))
   \<and> length (drop (length chat_history - 8) chat_history) = min 8 (length chat_history)
   \<and> (\<forall>msg.
        let shown = (if 100 < length (content msg)
                     then take 97 (content msg) @ ascii ''...'' else content msg)
        in length shown \<le> 100
         \<and> render_turn msg =
             (if role msg = ascii ''user'' then [54617, 49373] else [49440, 49373, 45784]) @
             (case score msg of
                Some s \<Rightarrow> [58, 32, 40, 51216, 49688, 58, 32] @ str_int s @ [51216, 41, 32]
              | None \<Rightarrow> [58, 32]) @
             shown @ [10])"
proof -
  have "history_str chat_history =
      concat (map render_turn (drop (length chat_history - 8) chat_history))"
    by (simp add: history_str_def recent_messages_def foldl_append_concat)
  moreover have "length (drop (length chat_history - 8) chat_history) =
      min 8 (length chat_history)"
    by simp
  moreover have "length (if 100 < length c then take 97 c @ ascii ''...'' else c) \<le> 100"
    for c :: ustr
    by (simp add: ascii_def)
  ultimately show ?thesis
    by (simp add: Let_def render_turn_def user_role_def ellipsis_def student_label_def
        teacher_label_def score_open_def score_close_def ascii_def split: option.splits)
qed

theorem transcript_of_recent_turns_witness:
  "history_str
     (map (\<lambda>i. \<lparr>role = ascii ''user'', content = [48 + i], score = None\<rparr>)
        [0, 1, 2, 3, 4, 5, 6, 7, 8]
      @ [\<lparr>role = ascii ''assistant'', content = replicate 150 97, score = Some 85\<rparr>]) =
   concat (map (\<lambda>i. [54617, 49373, 58, 32, 48 + i, 10]) [2, 3, 4, 5, 6, 7, 8])
     @ [49440, 49373, 45784] @ [58, 32, 40, 51216, 49688, 58, 32] @ [56, 53] @ [51216, 41, 32]
     @ replicate 97 97 @ [46, 46, 46] @ [10]"
  using transcript_of_recent_turns
    [of "map (\<lambda>i. \<lparr>role = ascii ''user'', content = [48 + i], score = None\<rparr>)
           [0, 1, 2, 3, 4, 5, 6, 7, 8]
         @ [\<lparr>role = ascii ''assistant'', content = replicate 150 97, score = Some 85\<rparr>]"]
  by (simp add: render_turn_def user_role_def ellipsis_def student_label_def teacher_label_def
      score_open_def score_close_def str_int_def ascii_def)

end
